theory Spec2Isabelle
  imports Complex_Main "HOL-Library.Log_Nat"
begin

text \<open>
  The EasyTier dashboard component (\<open>src/components/EasyTierDashboard.tsx\<close>): a React
  component that polls an HTTP endpoint for the nodes of a mesh network and shows them
  as a table. The theory embeds its formatters (\<open>formatToMB\<close>, the latency and
  virtual-IP cells, \<open>createStatusBadge\<close>), its poll (\<open>fetchNodes\<close>,
  \<open>handleRefresh\<close>) as transitions of the four state cells, and the choice of what
  the page shows, and proves what the specification says about them.
\<close>

section \<open>JavaScript values used by the dashboard\<close>

subsection \<open>Numbers\<close>

text \<open>
  A JavaScript number is an IEEE binary64 value. A finite one is carried by its exact
  rational value (both zeros are \<open>Fin 0\<close>: the component never tells them apart,
  \<open>!bytes\<close>, \<open>x > 0\<close> and \<open>toFixed\<close> treat \<open>-0\<close> as \<open>0\<close>).
\<close>

datatype number = NaN | PosInf | NegInf | Fin rat

text \<open>
  A numeric field of a node as the component reads it: \<open>None\<close> is an absent field
  (\<open>undefined\<close>, or \<open>null\<close> in the JSON).
\<close>

type_synonym numfield = "number option"

text \<open>\<open>!bytes\<close>: absent, \<open>NaN\<close> and zero are falsy, every other number is truthy.\<close>

fun falsy_num :: "numfield \<Rightarrow> bool" where
  "falsy_num None = True"
| "falsy_num (Some NaN) = True"
| "falsy_num (Some (Fin x)) = (x = 0)"
| "falsy_num (Some PosInf) = False"
| "falsy_num (Some NegInf) = False"

text \<open>\<open>v > 0\<close>: an absent field converts to \<open>NaN\<close> or \<open>0\<close>, and neither is above zero.\<close>

fun gt_zero :: "numfield \<Rightarrow> bool" where
  "gt_zero None = False"
| "gt_zero (Some NaN) = False"
| "gt_zero (Some PosInf) = True"
| "gt_zero (Some NegInf) = False"
| "gt_zero (Some (Fin x)) = (0 < x)"

text \<open>Rounding a rational to the nearest integer, ties to the even one (IEEE default).\<close>

definition round_ties_even :: "rat \<Rightarrow> int" where
  "round_ties_even q =
     (let f = \<lfloor>q\<rfloor>; d = q - of_int f
      in if d < 1 / 2 then f else if 1 / 2 < d then f + 1
         else if even f then f else f + 1)"

text \<open>
  \<open>bytes / (1024 * 1024)\<close>. The divisor is \<open>2 ^ 20\<close>, so the binary64 quotient of a
  binary64 number is exact as long as it stays in the normal range (at least
  \<open>2 ^ -1022\<close> in magnitude); below that it is rounded to a multiple of \<open>2 ^ -1074\<close>.
\<close>

definition div_MiB :: "number \<Rightarrow> number" where
  "div_MiB v =
     (case v of
        NaN \<Rightarrow> NaN
      | PosInf \<Rightarrow> PosInf
      | NegInf \<Rightarrow> NegInf
      | Fin x \<Rightarrow>
          (let q = x / (1024 * 1024)
           in if \<bar>q\<bar> < 1 / 2 ^ 1022
              then Fin (of_int (round_ties_even (q * 2 ^ 1074)) / 2 ^ 1074)
              else Fin q))"

subsection \<open>Decimal digits\<close>

definition digit_char :: "nat \<Rightarrow> char" where
  "digit_char d = ''0123456789'' ! (d mod 10)"

fun nat_digits :: "nat \<Rightarrow> string" where
  "nat_digits n =
     (if n < 10 then [digit_char n] else nat_digits (n div 10) @ [digit_char (n mod 10)])"

declare nat_digits.simps [simp del]

subsection \<open>Number.prototype.toString for large finite numbers\<close>

text \<open>
  After the ECMAScript specification (Number::toString, radix 10), for the only
  arguments \<open>toFixed\<close> hands to it: finite values of at least \<open>10 ^ 21\<close>, which as
  binary64 numbers are integers. The result is the shortest digit string \<open>s\<close> with
  \<open>k\<close> digits and the exponent \<open>n\<close> such that \<open>s * 10 ^ (n - k)\<close> rounds to the
  number, the closest such \<open>s\<close> when there are two, written in exponent notation.
\<close>

text \<open>Rounding a natural number to 53 significant bits, ties to even.\<close>

definition round53 :: "nat \<Rightarrow> nat" where
  "round53 N =
     (let sh = floorlog 2 N - 53; q = N div 2 ^ sh; r = N mod 2 ^ sh
      in if sh = 0 then N
         else if 2 * r < 2 ^ sh then q * 2 ^ sh
         else if 2 ^ sh < 2 * r then (q + 1) * 2 ^ sh
         else if even q then q * 2 ^ sh else (q + 1) * 2 ^ sh)"

text \<open>
  \<open>shortest N d k fuel\<close>: the digits \<open>s\<close> and the exponent \<open>n\<close> for the integer
  \<open>N\<close> of \<open>d\<close> decimal digits, trying \<open>k\<close>, \<open>k + 1\<close>, ... digits; all \<open>d\<close>
  digits of \<open>N\<close> when the search runs out.
\<close>

fun shortest :: "nat \<Rightarrow> nat \<Rightarrow> nat \<Rightarrow> nat \<Rightarrow> nat \<times> nat" where
  "shortest N d k 0 = (N, d)"
| "shortest N d k (Suc fuel) =
     (let p = 10 ^ (d - k); lo = N div p; hi = lo + 1;
          lo_ok = (round53 (lo * p) = N); hi_ok = (round53 (hi * p) = N);
          s = (if lo_ok \<and> hi_ok
               then (if N - lo * p < hi * p - N then lo
                     else if hi * p - N < N - lo * p then hi
                     else if even lo then lo else hi)
               else if lo_ok then lo else hi)
      in if d \<le> k then (N, d)
         else if lo_ok \<or> hi_ok then (if s = 10 ^ k then (1, d + 1) else (s, d))
         else shortest N d (k + 1) fuel)"

definition big_toString :: "rat \<Rightarrow> string" where
  "big_toString x =
     (let N = nat \<lfloor>x\<rfloor>; d = length (nat_digits N);
          found = shortest N d 1 d;
          ds = nat_digits (fst found); n = snd found
      in (if length ds = 1 then ds else take 1 ds @ ''.'' @ drop 1 ds)
         @ ''e+'' @ nat_digits (n - 1))"

subsection \<open>Number.prototype.toFixed\<close>

text \<open>
  After the ECMAScript specification. For \<open>0 \<le> x < 10 ^ 21\<close>: \<open>n\<close> is the
  integer for which \<open>n / 10 ^ f - x\<close> is closest to zero, the larger one of two; its
  digits are padded with zeros to \<open>f + 1\<close> characters and the point is put before the
  last \<open>f\<close> of them.
\<close>

definition fixed_notation :: "rat \<Rightarrow> nat \<Rightarrow> string" where
  "fixed_notation x f =
     (let n = nat \<lfloor>x * 10 ^ f + 1 / 2\<rfloor>;
          m = nat_digits n;
          k = length m;
          m' = (if k \<le> f then replicate (f + 1 - k) (CHR ''0'') @ m else m);
          k' = (if k \<le> f then f + 1 else k)
      in if f = 0 then m else take (k' - f) m' @ ''.'' @ drop (k' - f) m')"

text \<open>
  \<open>x.toFixed(f)\<close>, for the fraction digits \<open>1\<close> and \<open>2\<close> the component passes (the
  RangeError for \<open>f\<close> above 100 is never reached). A value that is not finite is
  printed by name; a negative one gets its sign in front of the rendering of its
  magnitude; a magnitude of \<open>10 ^ 21\<close> or more is printed in exponent notation.
\<close>

definition toFixed :: "number \<Rightarrow> nat \<Rightarrow> string" where
  "toFixed v f =
     (case v of
        NaN \<Rightarrow> ''NaN''
      | PosInf \<Rightarrow> ''Infinity''
      | NegInf \<Rightarrow> ''-Infinity''
      | Fin x \<Rightarrow>
          (if x < 0 then ''-'' else '''') @
          (if 10 ^ 21 \<le> \<bar>x\<bar> then big_toString \<bar>x\<bar> else fixed_notation \<bar>x\<bar> f))"

section \<open>The formatters of the component\<close>

text \<open>
  \<open>formatToMB\<close>: a falsy byte count is \<open>0.00\<close>, any other is divided by
  \<open>1024 * 1024\<close> and printed with two fraction digits.
\<close>

definition formatToMB :: "numfield \<Rightarrow> string" where
  "formatToMB bytes =
     (if falsy_num bytes then ''0.00''
      else case bytes of Some v \<Rightarrow> toFixed (div_MiB v) 2 | None \<Rightarrow> ''0.00'')"

text \<open>
  The latency cell: \<open>node.latency_ms > 0 ? node.latency_ms.toFixed(1) : '-'\<close>.
\<close>

definition latency :: "numfield \<Rightarrow> string" where
  "latency v =
     (if gt_zero v then (case v of Some x \<Rightarrow> toFixed x 1 | None \<Rightarrow> ''-'') else ''-'')"

subsection \<open>Strings\<close>

text \<open>
  A string is the list of its bytes in UTF-8. The component only searches for ASCII
  text and splits at an ASCII character, and an ASCII byte never occurs inside the
  encoding of another character, so searching and splitting agree with JavaScript's
  UTF-16 strings. \<open>toLowerCase\<close> is modelled on the ASCII letters; the characters
  outside ASCII stay as they are (none of them lowers to a letter of the three words
  the component looks for).
\<close>

definition lower_char :: "char \<Rightarrow> char" where
  "lower_char c =
     (case map_of (zip ''ABCDEFGHIJKLMNOPQRSTUVWXYZ'' ''abcdefghijklmnopqrstuvwxyz'') c of
        Some l \<Rightarrow> l
      | None \<Rightarrow> c)"

definition toLowerCase :: "string \<Rightarrow> string" where
  "toLowerCase s = map lower_char s"

text \<open>\<open>hay.includes(needle)\<close>: the needle starts at some position of the string.\<close>

fun includes_str :: "string \<Rightarrow> string \<Rightarrow> bool" where
  "includes_str [] needle = (needle = [])"
| "includes_str (c # cs) needle =
     (take (length needle) (c # cs) = needle \<or> includes_str cs needle)"

text \<open>\<open>s.split(sep)\<close> for a separator of one character; the result is never empty.\<close>

fun split_str :: "string \<Rightarrow> char \<Rightarrow> string list" where
  "split_str [] sep = [[]]"
| "split_str (c # cs) sep =
     (if c = sep then [] # split_str cs sep
      else (c # hd (split_str cs sep)) # tl (split_str cs sep))"

text \<open>\<open>(node.virtual_ip || '').split('/')[0]\<close>; an absent field reads as \<open>''\<close>.\<close>

definition cleanIp :: "string \<Rightarrow> string" where
  "cleanIp virtual_ip = split_str virtual_ip (CHR ''/'') ! 0"

subsection \<open>The connection-mode badge\<close>

text \<open>
  The four badges \<open>createStatusBadge\<close> returns: the local-link badge, the P2P badge,
  the relay badge, and the outline badge showing a text.
\<close>

datatype badge = LocalBadge | P2PBadge | RelayBadge | OutlineBadge string

definition createStatusBadge :: "string \<Rightarrow> badge" where
  "createStatusBadge cost =
     (let mode = toLowerCase (if cost = [] then ''unknown'' else cost)
      in if includes_str mode ''local'' then LocalBadge
         else if includes_str mode ''p2p'' then P2PBadge
         else if includes_str mode ''relay'' then RelayBadge
         else OutlineBadge (if cost = [] then ''-'' else cost))"

section \<open>Nodes, rows and the display state\<close>

text \<open>
  \<open>interface Node\<close>. A string field that is absent behaves like \<open>''\<close> wherever the
  component reads it (\<open>|| ''\<close>, \<open>|| '-'\<close>, \<open>|| 'unknown'\<close>), so \<open>''\<close> stands for both.
\<close>

record node =
  virtual_ip :: string
  public_addr :: string
  cost :: string
  latency_ms :: numfield
  rx_bytes :: numfield
  tx_bytes :: numfield
  conn_type :: string

text \<open>One table row, as \<open>nodes.map((node, index) => ...)\<close> builds it.\<close>

record row =
  row_key :: nat
  ip_cell :: string
  host_cell :: string
  mode_cell :: badge
  latency_cell :: string
  rxMb :: string
  txMb :: string
  tunnel_cell :: string

definition render_row :: "node \<Rightarrow> nat \<Rightarrow> row" where
  "render_row n index =
     \<lparr>row_key = index,
      ip_cell = cleanIp (virtual_ip n),
      host_cell = (if public_addr n = [] then ''-'' else public_addr n),
      mode_cell = createStatusBadge (cost n),
      latency_cell = latency (latency_ms n),
      rxMb = formatToMB (rx_bytes n),
      txMb = formatToMB (tx_bytes n),
      tunnel_cell = (if conn_type n = [] then ''-'' else conn_type n)\<rparr>"

subsection \<open>The parsed response body\<close>

text \<open>
  The value of a property of a JSON object: absent, \<open>null\<close>, a boolean or a
  string (a number, an array or an object as the value of \<open>error\<close> or \<open>details\<close>
  is left out).
\<close>

datatype jsval = Undefined | Null | Bool bool | Str string

fun truthy :: "jsval \<Rightarrow> bool" where
  "truthy Undefined = False"
| "truthy Null = False"
| "truthy (Bool b) = b"
| "truthy (Str s) = (s \<noteq> [])"

text \<open>The text a value has inside a template literal.\<close>

fun to_text :: "jsval \<Rightarrow> string" where
  "to_text Undefined = ''undefined''"
| "to_text Null = ''null''"
| "to_text (Bool b) = (if b then ''true'' else ''false'')"
| "to_text (Str s) = s"

text \<open>
  What \<open>response.json()\<close> resolves to: an array, read as \<open>Node[]\<close> (the type of the
  state it is stored in), or an object with its properties in the order of the text.
\<close>

datatype data = NodeArray "node list" | ObjectBody "(string \<times> jsval) list"

text \<open>
  \<open>data.error\<close> and \<open>data.details\<close>: an array has neither property; of a key
  that the JSON text repeats, the last value counts.
\<close>

fun property :: "data \<Rightarrow> string \<Rightarrow> jsval" where
  "property (NodeArray xs) name = Undefined"
| "property (ObjectBody ps) name =
     (case map_of (rev ps) name of Some v \<Rightarrow> v | None \<Rightarrow> Undefined)"

subsection \<open>The display state\<close>

text \<open>The four \<open>useState\<close> cells; \<open>lastUpdate\<close> is a time in milliseconds.\<close>

record state =
  nodes :: data
  loading :: bool
  error :: "string option"
  lastUpdate :: "nat option"

definition initial_state :: state where
  "initial_state = \<lparr>nodes = NodeArray [], loading = True, error = None, lastUpdate = None\<rparr>"

record toast =
  title :: string
  description :: string
  variant :: string

section \<open>The poll\<close>

text \<open>What a \<open>catch\<close> receives: an \<open>Error\<close> with its message, or any other value.\<close>

datatype thrown = ErrorObject string | NonError

text \<open>
  What the network answers to one \<open>fetch\<close>. The promise rejects (a transport failure,
  or the abort that the 5000 ms timer fires), or it resolves to a response with a
  status, whose body then parses or does not.
\<close>

text \<open>\<open>response.json()\<close> rejects with what it throws, or resolves to the parsed body.\<close>

datatype body = InvalidJson thrown | Json data

datatype outcome = Rejected thrown | Response nat body

definition response_ok :: "nat \<Rightarrow> bool" where
  "response_ok status = (200 \<le> status \<and> status \<le> 299)"

text \<open>The texts of the component, in UTF-8.\<close>

definition api_error_prefix :: string where
  "api_error_prefix =
     ''API '' @ [CHR 0xE5, CHR 0x93, CHR 0x8D, CHR 0xE5, CHR 0xBA, CHR 0x94,
                 CHR 0xE9, CHR 0x94, CHR 0x99, CHR 0xE8, CHR 0xAF, CHR 0xAF] @ '': ''"

definition backend_error_prefix :: string where
  "backend_error_prefix =
     [CHR 0xE5, CHR 0x90, CHR 0x8E, CHR 0xE7, CHR 0xAB, CHR 0xAF,
      CHR 0xE9, CHR 0x94, CHR 0x99, CHR 0xE8, CHR 0xAF, CHR 0xAF] @ '': ''"

definition unknown_error_text :: string where
  "unknown_error_text =
     [CHR 0xE6, CHR 0x9C, CHR 0xAA, CHR 0xE7, CHR 0x9F, CHR 0xA5,
      CHR 0xE9, CHR 0x94, CHR 0x99, CHR 0xE8, CHR 0xAF, CHR 0xAF]"

definition toast_title :: string where
  "toast_title =
     [CHR 0xE8, CHR 0xBF, CHR 0x9E, CHR 0xE6, CHR 0x8E, CHR 0xA5,
      CHR 0xE5, CHR 0xA4, CHR 0xB1, CHR 0xE8, CHR 0xB4, CHR 0xA5]"

text \<open>
  The four ways out of the \<open>try\<close> into the \<open>catch\<close>: \<open>await fetch\<close> rejects, the
  first \<open>throw\<close> (the status is not ok), \<open>await response.json()\<close> rejects, the
  second \<open>throw\<close> (the body has a truthy \<open>error\<close>; the value is what the message
  is made of).
\<close>

datatype failure =
    FetchRejected thrown
  | HttpStatusError nat
  | JsonRejected thrown
  | BackendError jsval

text \<open>The value the \<open>catch\<close> receives on each way.\<close>

fun caught :: "failure \<Rightarrow> thrown" where
  "caught (FetchRejected e) = e"
| "caught (HttpStatusError status) = ErrorObject (api_error_prefix @ nat_digits status)"
| "caught (JsonRejected e) = e"
| "caught (BackendError v) = ErrorObject (backend_error_prefix @ to_text v)"

text \<open>
  The body of the \<open>try\<close> after \<open>setError(null)\<close>, up to the value handed to
  \<open>setNodes\<close>.
\<close>

fun request :: "outcome \<Rightarrow> failure + data" where
  "request (Rejected e) = Inl (FetchRejected e)"
| "request (Response status b) =
     (if \<not> response_ok status then Inl (HttpStatusError status)
      else case b of
             InvalidJson e \<Rightarrow> Inl (JsonRejected e)
           | Json d \<Rightarrow>
               if truthy (property d ''error'')
               then Inl (BackendError (if truthy (property d ''details'')
                                        then property d ''details''
                                        else property d ''error''))
               else Inr d)"

text \<open>\<open>err instanceof Error ? err.message : ...\<close>\<close>

fun errorMessage :: "thrown \<Rightarrow> string" where
  "errorMessage (ErrorObject m) = m"
| "errorMessage NonError = unknown_error_text"

text \<open>
  \<open>fetchNodes\<close> runs in two parts: up to the first \<open>await\<close> it only clears the
  error; when the network has answered it writes the result. \<open>now\<close> is the time
  \<open>new Date()\<close> reads. The toasts it emits are returned with the state.
\<close>

definition fetchNodes_begin :: "state \<Rightarrow> state" where
  "fetchNodes_begin st = st\<lparr>error := None\<rparr>"

definition fetchNodes_settle :: "outcome \<Rightarrow> nat \<Rightarrow> state \<Rightarrow> state \<times> toast list" where
  "fetchNodes_settle out now st =
     (case request out of
        Inr d \<Rightarrow> (st\<lparr>nodes := d, lastUpdate := Some now, loading := False\<rparr>, [])
      | Inl f \<Rightarrow>
          (let msg = errorMessage (caught f)
           in (st\<lparr>error := Some msg, loading := False\<rparr>,
               [\<lparr>title = toast_title, description = msg,
                 variant = ''destructive''\<rparr>])))"

text \<open>One poll from the call to its end, with nothing else running in between.\<close>

definition fetchNodes :: "outcome \<Rightarrow> nat \<Rightarrow> state \<Rightarrow> state \<times> toast list" where
  "fetchNodes out now st = fetchNodes_settle out now (fetchNodes_begin st)"

text \<open>\<open>handleRefresh\<close>, up to the first \<open>await\<close> of the poll it starts.\<close>

definition handleRefresh :: "state \<Rightarrow> state" where
  "handleRefresh st = fetchNodes_begin (st\<lparr>loading := True\<rparr>)"

text \<open>
  Everything that writes the state: the effect that runs once on mount, the interval
  timer, a click on a refresh button, and the end of a poll that is in flight.
\<close>

datatype event = Mounted | IntervalTick | RefreshClicked | Settled outcome nat

fun step :: "event \<Rightarrow> state \<Rightarrow> state \<times> toast list" where
  "step Mounted st = (fetchNodes_begin st, [])"
| "step IntervalTick st = (fetchNodes_begin st, [])"
| "step RefreshClicked st = (handleRefresh st, [])"
| "step (Settled out now) st = fetchNodes_settle out now st"

text \<open>
  The events one after the other, from a state; and the events that are the end of a
  poll that fails.
\<close>

primrec run :: "event list \<Rightarrow> state \<Rightarrow> state" where
  "run [] st = st"
| "run (ev # es) st = run es (fst (step ev st))"

fun failing :: "event \<Rightarrow> bool" where
  "failing (Settled out now) = (case request out of Inl f \<Rightarrow> True | Inr d \<Rightarrow> False)"
| "failing ev = False"

section \<open>Rendering\<close>

text \<open>
  The main content of the page. The error panel carries the button that calls
  \<open>handleRefresh\<close>. A state whose \<open>nodes\<close> is not an array (an object body without
  a truthy \<open>error\<close> was stored) has no \<open>length\<close> of zero and no \<open>map\<close>: rendering throws.
\<close>

datatype handler = HandleRefresh

datatype view =
    ErrorPanel string handler
  | LoadingPanel
  | EmptyPanel
  | NodeTable "row list"
  | RenderThrows

definition render :: "state \<Rightarrow> view" where
  "render st =
     (if (case error st of Some m \<Rightarrow> m \<noteq> [] | None \<Rightarrow> False)
      then ErrorPanel (case error st of Some m \<Rightarrow> m | None \<Rightarrow> []) HandleRefresh
      else if loading st then LoadingPanel
      else case nodes st of
             NodeArray xs \<Rightarrow>
               if length xs = 0 then EmptyPanel
               else NodeTable (map2 render_row xs [0 ..< length xs])
           | ObjectBody ps \<Rightarrow> RenderThrows)"

section \<open>The words of the specification\<close>

text \<open>
  A case-insensitive substring match: some part of the string, put in lower case, is
  the word (which is given in lower case).
\<close>

definition ci_contains :: "string \<Rightarrow> string \<Rightarrow> bool" where
  "ci_contains s word = (\<exists>pre mid post. s = pre @ mid @ post \<and> toLowerCase mid = word)"

text \<open>Rounding to the nearest natural number, a half upwards.\<close>

definition half_up :: "rat \<Rightarrow> nat" where
  "half_up r = nat \<lfloor>r + 1 / 2\<rfloor>"

text \<open>
  A value rounded to one decimal place, and to two: the digits of the whole part, the
  point, and the one or two digits of the fraction.
\<close>

definition one_decimal :: "rat \<Rightarrow> string" where
  "one_decimal x =
     (let n = half_up (x * 10)
      in nat_digits (n div 10) @ ''.'' @ [digit_char (n mod 10)])"

definition two_decimals :: "rat \<Rightarrow> string" where
  "two_decimals x =
     (let n = half_up (x * 100)
      in nat_digits (n div 100) @ ''.'' @
         [digit_char (n div 10 mod 10), digit_char (n mod 10)])"


datatype branch = ErrorBranch | LoadingBranch | EmptyBranch | TableBranch

fun branch_of :: "view \<Rightarrow> branch option" where
  "branch_of (ErrorPanel m h) = Some ErrorBranch"
| "branch_of LoadingPanel = Some LoadingBranch"
| "branch_of EmptyPanel = Some EmptyBranch"
| "branch_of (NodeTable rs) = Some TableBranch"
| "branch_of RenderThrows = None"

section \<open>Strings: splitting and searching\<close>

lemma split_str_not_Nil: "split_str s sep \<noteq> []"
  by (induction s) auto

lemma hd_split_str: "hd (split_str s sep) = takeWhile (\<lambda>c. c \<noteq> sep) s"
  by (induction s) auto

lemma cleanIp_takeWhile: "cleanIp s = takeWhile (\<lambda>c. c \<noteq> CHR ''/'') s"
  unfolding cleanIp_def
  by (simp add: hd_conv_nth [symmetric] split_str_not_Nil hd_split_str)

lemma includes_str_iff: "includes_str hay needle = (\<exists>pre post. hay = pre @ needle @ post)"
proof (induction hay)
  case Nil
  then show ?case by auto
next
  case (Cons c cs)
  have here: "(take (length needle) (c # cs) = needle) = (\<exists>post. c # cs = needle @ post)"
    by (metis append_eq_conv_conj)
  have "(\<exists>pre post. c # cs = pre @ needle @ post)
        = ((\<exists>post. c # cs = needle @ post) \<or> (\<exists>pre post. cs = pre @ needle @ post))"
    (is "?L = ?R")
  proof
    assume ?L
    then obtain pre post where e: "c # cs = pre @ needle @ post" by blast
    show ?R
    proof (cases pre)
      case Nil
      with e show ?thesis by auto
    next
      case (Cons a pre')
      with e have "cs = pre' @ needle @ post" by simp
      then show ?thesis by blast
    qed
  next
    assume ?R
    then show ?L
    proof
      assume "\<exists>post. c # cs = needle @ post"
      then obtain post where "c # cs = [] @ needle @ post" by auto
      then show ?L by blast
    next
      assume "\<exists>pre post. cs = pre @ needle @ post"
      then obtain pre post where "c # cs = (c # pre) @ needle @ post" by auto
      then show ?L by blast
    qed
  qed
  with Cons here show ?case by simp
qed

lemma includes_lower_iff: "includes_str (toLowerCase s) word = ci_contains s word"
proof
  assume "includes_str (toLowerCase s) word"
  then obtain pre post where "map lower_char s = pre @ (word @ post)"
    by (auto simp: includes_str_iff toLowerCase_def)
  then have "\<exists>us vs. s = us @ vs \<and> pre = map lower_char us \<and> word @ post = map lower_char vs"
    by (simp only: map_eq_append_conv)
  then obtain us vs where s: "s = us @ vs" and vs: "map lower_char vs = word @ post"
    by metis
  from vs have "\<exists>b c. vs = b @ c \<and> word = map lower_char b \<and> post = map lower_char c"
    by (simp only: map_eq_append_conv)
  then obtain b c where "vs = b @ c" and "map lower_char b = word"
    by metis
  with s show "ci_contains s word"
    unfolding ci_contains_def toLowerCase_def by blast
next
  assume "ci_contains s word"
  then obtain a b c where "s = a @ b @ c" and "map lower_char b = word"
    unfolding ci_contains_def toLowerCase_def by blast
  then have "map lower_char s = map lower_char a @ word @ map lower_char c"
    by simp
  then show "includes_str (toLowerCase s) word"
    unfolding includes_str_iff toLowerCase_def by blast
qed

lemma ci_contains_Nil: "word \<noteq> [] \<Longrightarrow> \<not> ci_contains [] word"
  by (auto simp: ci_contains_def toLowerCase_def)

lemma unknown_matches_nothing:
  "\<not> includes_str (toLowerCase ''unknown'') ''local''"
  "\<not> includes_str (toLowerCase ''unknown'') ''p2p''"
  "\<not> includes_str (toLowerCase ''unknown'') ''relay''"
  by (simp_all add: toLowerCase_def lower_char_def)

section \<open>The connection-mode badge\<close>

text \<open>
  C2: the badge is chosen by a case-insensitive substring match on the cost, tried in
  the order local, p2p, relay, the first match winning; a cost that matches none is
  shown as it is, and an empty one as a dash. The cost \<open>P2P-Relay\<close> gets the P2P badge.
\<close>

theorem createStatusBadge_priority:
  "createStatusBadge c =
     (if ci_contains c ''local'' then LocalBadge
      else if ci_contains c ''p2p'' then P2PBadge
      else if ci_contains c ''relay'' then RelayBadge
      else OutlineBadge (if c = [] then ''-'' else c))
   \<and> createStatusBadge ''P2P-Relay'' = P2PBadge"
proof
  show "createStatusBadge c =
     (if ci_contains c ''local'' then LocalBadge
      else if ci_contains c ''p2p'' then P2PBadge
      else if ci_contains c ''relay'' then RelayBadge
      else OutlineBadge (if c = [] then ''-'' else c))"
  proof (cases "c = []")
    case True
    then show ?thesis
      by (simp add: createStatusBadge_def unknown_matches_nothing ci_contains_Nil)
  next
    case False
    then show ?thesis
      by (simp add: createStatusBadge_def includes_lower_iff)
  qed
  show "createStatusBadge ''P2P-Relay'' = P2PBadge"
    by (simp add: createStatusBadge_def toLowerCase_def lower_char_def)
qed

section \<open>The virtual-IP cell\<close>

text \<open>
  C8: the cell shows the address up to the first \<open>/\<close>: the rest, if any, starts with
  that \<open>/\<close>, no \<open>/\<close> is left in the cell, an address without \<open>/\<close> is shown unchanged,
  and \<open>10.0.0.5/24\<close> is shown as \<open>10.0.0.5\<close>.
\<close>

theorem cleanIp_strips_suffix:
  "(\<exists>rest. vip = cleanIp vip @ rest \<and> (rest = [] \<or> hd rest = CHR ''/''))
   \<and> CHR ''/'' \<notin> set (cleanIp vip)
   \<and> (CHR ''/'' \<notin> set vip \<longrightarrow> cleanIp vip = vip)
   \<and> cleanIp ''10.0.0.5/24'' = ''10.0.0.5''"
proof (intro conjI)
  let ?p = "\<lambda>c. c \<noteq> CHR ''/''"
  have "vip = takeWhile ?p vip @ dropWhile ?p vip" by simp
  moreover have "dropWhile ?p vip = [] \<or> hd (dropWhile ?p vip) = CHR ''/''"
    using hd_dropWhile [of ?p vip] by auto
  ultimately show "\<exists>rest. vip = cleanIp vip @ rest \<and> (rest = [] \<or> hd rest = CHR ''/'')"
    unfolding cleanIp_takeWhile by blast
  show "CHR ''/'' \<notin> set (cleanIp vip)"
    unfolding cleanIp_takeWhile by (auto dest: set_takeWhileD)
  show "CHR ''/'' \<notin> set vip \<longrightarrow> cleanIp vip = vip"
    unfolding cleanIp_takeWhile by (auto intro: takeWhile_eq_all_conv [THEN iffD2])
  show "cleanIp ''10.0.0.5/24'' = ''10.0.0.5''"
    by (simp add: cleanIp_takeWhile)
qed

theorem cleanIp_strips_suffix_witness:
  "CHR ''/'' \<notin> set ''10.0.0.5'' \<and> cleanIp ''10.0.0.5'' = ''10.0.0.5''"
  using cleanIp_strips_suffix [of "''10.0.0.5''"] by simp

section \<open>Decimal rendering\<close>

lemma digit_char_zero: "digit_char 0 = CHR ''0''"
  by (simp add: digit_char_def)

lemma nat_digits_small: "n < 10 \<Longrightarrow> nat_digits n = [digit_char n]"
  by (simp add: nat_digits.simps)

lemma nat_digits_large:
  "10 \<le> n \<Longrightarrow> nat_digits n = nat_digits (n div 10) @ [digit_char (n mod 10)]"
  by (subst nat_digits.simps) simp

lemma nat_digits_not_Nil: "nat_digits n \<noteq> []"
  by (subst nat_digits.simps) simp

lemma length_nat_digits_pos: "0 < length (nat_digits n)"
  using nat_digits_not_Nil [of n] by simp

lemma fixed_notation_one: "fixed_notation x 1 = one_decimal x"
proof (cases "half_up (x * 10) < 10")
  case True
  then show ?thesis
    by (simp add: fixed_notation_def one_decimal_def half_up_def Let_def nat_digits_small
        digit_char_zero)
next
  case False
  then have "10 \<le> half_up (x * 10)" by simp
  then show ?thesis
    using length_nat_digits_pos [of "half_up (x * 10) div 10"]
    by (simp add: fixed_notation_def one_decimal_def half_up_def Let_def nat_digits_large)
qed

lemma fixed_notation_two: "fixed_notation x 2 = two_decimals x"
proof -
  let ?n = "half_up (x * 100)"
  consider "?n < 10" | "10 \<le> ?n" "?n < 100" | "100 \<le> ?n" by linarith
  then show ?thesis
  proof cases
    case 1
    then show ?thesis
      by (simp add: fixed_notation_def two_decimals_def half_up_def Let_def nat_digits_small
          numeral_2_eq_2 digit_char_zero)
  next
    case 2
    then have "?n div 10 < 10" by simp
    with 2 show ?thesis
      by (simp add: fixed_notation_def two_decimals_def half_up_def Let_def nat_digits_small
          nat_digits_large [of ?n, unfolded half_up_def] numeral_2_eq_2 digit_char_zero)
  next
    case 3
    then have a: "10 \<le> ?n" and b: "10 \<le> ?n div 10" and c: "?n div 10 div 10 = ?n div 100"
      by (simp_all add: div_mult2_eq [symmetric])
    have "nat_digits ?n
          = nat_digits (?n div 100) @ [digit_char (?n div 10 mod 10), digit_char (?n mod 10)]"
      using nat_digits_large [OF a] nat_digits_large [OF b] c by simp
    then show ?thesis
      using length_nat_digits_pos [of "?n div 100"]
      by (simp add: fixed_notation_def two_decimals_def half_up_def Let_def)
  qed
qed

lemma half_up_close: "0 \<le> y \<Longrightarrow> \<bar>of_nat (half_up y) - y\<bar> \<le> 1 / 2"
proof -
  assume y: "0 \<le> y"
  then have "0 \<le> \<lfloor>y + 1 / 2\<rfloor>" by simp
  then have "(of_nat (half_up y) :: rat) = of_int \<lfloor>y + 1 / 2\<rfloor>"
    by (simp add: half_up_def)
  moreover have "of_int \<lfloor>y + 1 / 2\<rfloor> \<le> y + 1 / 2" "y + 1 / 2 < of_int \<lfloor>y + 1 / 2\<rfloor> + 1"
    by linarith+
  ultimately show ?thesis by linarith
qed

lemma floor_rat_numeral: "\<lfloor>(numeral a :: rat) / numeral b\<rfloor> = numeral a div numeral b"
  using floor_divide_of_int_eq [of "numeral a" "numeral b", where ?'a = rat] by simp

lemma two_decimals_1: "two_decimals 1 = ''1.00''"
  by (simp add: two_decimals_def half_up_def Let_def floor_rat_numeral nat_digits_small
      nat_digits_large digit_char_def)

lemma two_decimals_3_2: "two_decimals (3 / 2) = ''1.50''"
  by (simp add: two_decimals_def half_up_def Let_def floor_rat_numeral nat_digits_small
      nat_digits_large digit_char_def)

lemma one_decimal_double_12_345:
  "one_decimal (6949617174986097 / 562949953421312) = ''12.3''"
  by (simp add: one_decimal_def half_up_def Let_def floor_rat_numeral nat_digits_small
      nat_digits_large digit_char_def)

lemma one_decimal_12_345: "one_decimal (2469 / 200) = ''12.3''"
  by (simp add: one_decimal_def half_up_def Let_def floor_rat_numeral nat_digits_small
      nat_digits_large digit_char_def)

lemma one_decimal_quarter: "one_decimal (1 / 4) = ''0.3''"
  by (simp add: one_decimal_def half_up_def Let_def floor_rat_numeral nat_digits_small
      nat_digits_large digit_char_def)

lemma big_toString_not_dash: "big_toString x \<noteq> ''-''"
proof -
  have "CHR ''e'' \<in> set (big_toString x)"
    by (simp add: big_toString_def Let_def)
  then show ?thesis by auto
qed

lemma one_decimal_not_dash: "one_decimal x \<noteq> ''-''"
proof -
  have "CHR ''.'' \<in> set (one_decimal x)"
    by (simp add: one_decimal_def Let_def)
  then show ?thesis by auto
qed

lemma toFixed_pos_not_dash: "gt_zero (Some v) \<Longrightarrow> toFixed v 1 \<noteq> ''-''"
  by (cases v)
     (auto simp: toFixed_def fixed_notation_one one_decimal_not_dash big_toString_not_dash
           simp del: One_nat_def)

subsection \<open>The value \<open>10 ^ 21\<close> in exponent notation\<close>

lemma floorlog_2_eq: "2 ^ w \<le> x \<Longrightarrow> x < 2 ^ Suc w \<Longrightarrow> floorlog 2 x = Suc w"
proof (rule antisym)
  assume "x < 2 ^ Suc w"
  then show "floorlog 2 x \<le> Suc w" by (intro floorlog_leI) simp_all
next
  assume "2 ^ w \<le> x"
  then show "Suc w \<le> floorlog 2 x" by (intro floorlog_ge_SucI) simp_all
qed

lemma bits_1e21: "floorlog 2 1000000000000000000000 = 70"
  using floorlog_2_eq [of 69 1000000000000000000000] by simp

lemma bits_2e21: "floorlog 2 2000000000000000000000 = 71"
  using floorlog_2_eq [of 70 2000000000000000000000] by simp

lemma round53_1e21: "round53 1000000000000000000000 = 1000000000000000000000"
  by (simp add: round53_def bits_1e21 Let_def)

lemma round53_2e21: "round53 2000000000000000000000 \<noteq> 1000000000000000000000"
  by (simp add: round53_def bits_2e21 Let_def)

lemma digits_1e21: "nat_digits 1000000000000000000000 = ''1000000000000000000000''"
  by (simp add: nat_digits_small nat_digits_large digit_char_def)

lemma shortest_1e21: "shortest 1000000000000000000000 22 1 (Suc 21) = (1, 22)"
  apply (subst shortest.simps(2))
  apply (simp add: Let_def round53_1e21 round53_2e21 del: One_nat_def)
  done

lemma nat_floor_1e21: "nat \<lfloor>(10::rat) ^ 21\<rfloor> = 1000000000000000000000"
  by simp

lemma nat_digits_1_21: "nat_digits (Suc 0) = ''1''" "nat_digits 21 = ''21''"
  by (simp_all add: nat_digits_small nat_digits_large digit_char_def)

lemma big_toString_1e21: "big_toString (10 ^ 21) = ''1e+21''"
proof -
  have s: "shortest 1000000000000000000000 22 (Suc 0) 22 = (1, 22)"
    using shortest_1e21 by simp
  have l: "length (nat_digits 1000000000000000000000) = 22"
    by (simp only: digits_1e21) simp
  show ?thesis
    unfolding big_toString_def Let_def nat_floor_1e21 l
    by (simp add: s nat_digits_1_21)
qed

section \<open>The latency cell\<close>

lemma latency_dash_iff: "(latency v = ''-'') = (\<not> gt_zero v)"
  by (cases v) (auto simp: latency_def toFixed_pos_not_dash simp del: One_nat_def)

lemma latency_fixed:
  "0 < x \<Longrightarrow> x < 10 ^ 21 \<Longrightarrow> latency (Some (Fin x)) = one_decimal x"
  by (simp add: latency_def toFixed_def fixed_notation_one del: One_nat_def)

text \<open>
  C7, as the code has it: the cell is the dash exactly when the value is not strictly
  positive (zero, negative, \<open>NaN\<close>, absent); a strictly positive finite value below
  \<open>10 ^ 21\<close> is shown rounded to one decimal place, at most \<open>0.05\<close> away from it. \<open>0\<close>
  and \<open>-5\<close> give the dash, and \<open>12.345\<close> (the binary64 number written so, and the
  decimal fraction itself) gives \<open>12.3\<close>.
\<close>

theorem latency_behaviour:
  "(latency v = ''-'') = (\<not> gt_zero v)
   \<and> (0 < x \<and> x < 10 ^ 21 \<longrightarrow>
        latency (Some (Fin x)) = one_decimal x
        \<and> \<bar>of_nat (half_up (x * 10)) / 10 - x\<bar> \<le> 1 / 20)
   \<and> latency (Some (Fin 0)) = ''-''
   \<and> latency (Some (Fin (- 5))) = ''-''
   \<and> latency None = ''-''
   \<and> latency (Some NaN) = ''-''
   \<and> latency (Some (Fin (6949617174986097 / 562949953421312))) = ''12.3''
   \<and> latency (Some (Fin (2469 / 200))) = ''12.3''"
proof (intro conjI impI)
  show "(latency v = ''-'') = (\<not> gt_zero v)"
    by (rule latency_dash_iff)
  show "latency (Some (Fin (6949617174986097 / 562949953421312))) = ''12.3''"
    using latency_fixed [of "6949617174986097 / 562949953421312"]
    by (simp add: one_decimal_double_12_345)
  show "latency (Some (Fin (2469 / 200))) = ''12.3''"
    using latency_fixed [of "2469 / 200"] by (simp add: one_decimal_12_345)
next
  assume h: "0 < x \<and> x < 10 ^ 21"
  then show "latency (Some (Fin x)) = one_decimal x"
    by (simp only: latency_fixed)
next
  assume h: "0 < x \<and> x < 10 ^ 21"
  then have "0 \<le> x * 10" by simp
  from half_up_close [OF this]
  show "\<bar>of_nat (half_up (x * 10)) / 10 - x\<bar> \<le> 1 / 20"
    by linarith
qed (simp_all add: latency_def)

theorem latency_behaviour_witness:
  "(0::rat) < 1 / 4 \<and> (1::rat) / 4 < 10 ^ 21
   \<and> latency (Some (Fin (1 / 4))) = ''0.3''"
proof -
  have a: "(0::rat) < 1 / 4" and b: "(1::rat) / 4 < 10 ^ 21" by simp_all
  from latency_behaviour [of "Some NaN" "1 / 4"] a b
  have "latency (Some (Fin (1 / 4))) = ''0.3''"
    by (simp add: one_decimal_quarter)
  with a b show ?thesis by blast
qed

text \<open>
  A strictly positive latency that is not shown with one decimal place: \<open>10 ^ 21\<close> is
  shown in exponent notation, and \<open>Infinity\<close> (what \<open>1e999\<close> in the JSON parses to) by
  its name.
\<close>

theorem huge_latency_counterexample:
  "gt_zero (Some (Fin (10 ^ 21)))
   \<and> latency (Some (Fin (10 ^ 21))) = ''1e+21''
   \<and> gt_zero (Some PosInf)
   \<and> latency (Some PosInf) = ''Infinity''"
  using big_toString_1e21 by (simp add: latency_def toFixed_def)

section \<open>The byte counters\<close>

lemma formatToMB_falsy: "falsy_num b \<Longrightarrow> formatToMB b = ''0.00''"
  by (simp add: formatToMB_def)

lemma div_MiB_exact:
  assumes "1 / 2 ^ 1022 \<le> \<bar>x\<bar> / 1048576"
  shows "div_MiB (Fin x) = Fin (x / 1048576)"
proof -
  have m: "(1024::rat) * 1024 = 1048576" by simp
  have "\<bar>x / 1048576\<bar> = \<bar>x\<bar> / 1048576" by simp
  with assms have "\<not> \<bar>x / 1048576\<bar> < 1 / 2 ^ 1022"
    by (simp only: not_less)
  then show ?thesis
    unfolding div_MiB_def Let_def m by (simp only: number.case if_False)
qed

lemma formatToMB_fixed:
  assumes "1 / 2 ^ 1022 \<le> \<bar>x\<bar> / 1048576" and "\<bar>x\<bar> / 1048576 < 10 ^ 21"
  shows "formatToMB (Some (Fin x))
         = (if x < 0 then ''-'' else []) @ two_decimals (\<bar>x\<bar> / 1048576)"
proof -
  have "(0::rat) < 1 / 2 ^ 1022"
    by (rule divide_pos_pos) (simp_all only: zero_less_one zero_less_power zero_less_numeral)
  from this assms(1) have "0 < \<bar>x\<bar> / 1048576" by (rule less_le_trans)
  then have nz: "x \<noteq> 0" by auto
  have a: "\<bar>x / 1048576\<bar> = \<bar>x\<bar> / 1048576" by simp
  have s: "(x / 1048576 < 0) = (x < 0)" by (simp add: divide_less_0_iff)
  have "formatToMB (Some (Fin x)) = toFixed (Fin (x / 1048576)) 2"
    using nz by (simp only: formatToMB_def falsy_num.simps if_False option.case
        div_MiB_exact [OF assms(1)])
  also have "\<dots> = (if x < 0 then ''-'' else []) @ fixed_notation (\<bar>x\<bar> / 1048576) 2"
    using assms(2) unfolding toFixed_def number.case a s
    by (simp only: not_le [symmetric] if_False)
  finally show ?thesis by (simp only: fixed_notation_two)
qed

lemma tiny_le_one: "(1::rat) / 2 ^ 1022 \<le> 1"
  by simp

lemma formatToMB_one_MiB: "formatToMB (Some (Fin 1048576)) = ''1.00''"
  using formatToMB_fixed [of 1048576] tiny_le_one by (simp add: two_decimals_1)

lemma formatToMB_minus_one_MiB: "formatToMB (Some (Fin (- 1048576))) = ''-1.00''"
  using formatToMB_fixed [of "- 1048576"] tiny_le_one by (simp add: two_decimals_1)

lemma round_ties_even_close: "\<bar>of_int (round_ties_even z) - z\<bar> \<le> 1"
proof -
  have "of_int \<lfloor>z\<rfloor> \<le> z" "z < of_int \<lfloor>z\<rfloor> + 1" by linarith+
  then show ?thesis
    by (auto simp: round_ties_even_def Let_def)
qed

lemma two_decimals_small: "0 \<le> y \<Longrightarrow> y < 1 / 200 \<Longrightarrow> two_decimals y = ''0.00''"
proof -
  assume a: "0 \<le> y" and b: "y < 1 / 200"
  then have "0 \<le> y * 100 + 1 / 2" "y * 100 + 1 / 2 < 1" by linarith+
  then have "\<lfloor>y * 100 + 1 / 2\<rfloor> = 0" by linarith
  then have "half_up (y * 100) = 0" by (simp add: half_up_def)
  then show ?thesis
    by (simp add: two_decimals_def Let_def nat_digits_small digit_char_zero)
qed

lemma subnormal_quotient_small:
  fixes q :: rat
  assumes "\<bar>q\<bar> < 1 / 2 ^ 1022"
  shows "\<bar>of_int (round_ties_even (q * 2 ^ 1074)) / 2 ^ 1074\<bar> < (1::rat) / 200"
proof -
  define A :: rat where "A = 2 ^ 1022"
  define B :: rat where "B = 2 ^ 52"
  have AB: "(2::rat) ^ 1074 = A * B"
    unfolding A_def B_def by (simp only: power_add [symmetric]) simp
  have A: "400 \<le> A" unfolding A_def by simp
  have B: "1 \<le> B" unfolding B_def by simp
  have A0: "0 < A" and B0: "0 < B" using A B by linarith+
  from assms have qa: "\<bar>q\<bar> < 1 / A" by (simp only: A_def)
  have "\<bar>q * (A * B)\<bar> = \<bar>q\<bar> * (A * B)"
    using A0 B0 by (simp add: abs_mult)
  also have "\<dots> < 1 / A * (A * B)"
    using qa A0 B0 by (intro mult_strict_right_mono) simp_all
  also have "\<dots> = B" using A0 by simp
  finally have qb: "\<bar>q * (A * B)\<bar> < B" .
  let ?r = "(of_int (round_ties_even (q * (A * B))) :: rat)"
  have "\<bar>?r - q * (A * B)\<bar> \<le> 1" by (rule round_ties_even_close)
  with qb have "\<bar>?r\<bar> < B + 1" by linarith
  with B have r: "\<bar>?r\<bar> < 2 * B" by linarith
  have "\<bar>?r / (A * B)\<bar> = \<bar>?r\<bar> / (A * B)"
    using A0 B0 by (simp add: abs_mult)
  also have "\<dots> < 2 * B / (A * B)"
    using r A0 B0 by (intro divide_strict_right_mono) simp_all
  also have "\<dots> = 2 / A" using B0 by simp
  also have "\<dots> \<le> 1 / 200" using A A0 by (simp add: field_simps)
  finally show ?thesis by (simp only: AB)
qed

lemma div_MiB_subnormal:
  assumes "\<bar>x\<bar> / 1048576 < 1 / 2 ^ 1022"
  shows "div_MiB (Fin x)
         = Fin (of_int (round_ties_even (x / 1048576 * 2 ^ 1074)) / 2 ^ 1074)"
proof -
  have m: "(1024::rat) * 1024 = 1048576" by simp
  have "\<bar>x / 1048576\<bar> = \<bar>x\<bar> / 1048576" by simp
  with assms have "\<bar>x / 1048576\<bar> < 1 / 2 ^ 1022" by (simp only:)
  then show ?thesis
    unfolding div_MiB_def Let_def m by (simp only: number.case if_True)
qed

lemma formatToMB_subnormal:
  assumes "x \<noteq> 0" and "\<bar>x\<bar> / 1048576 < 1 / 2 ^ 1022"
  shows "formatToMB (Some (Fin x))
         = (if round_ties_even (x / 1048576 * 2 ^ 1074) < 0 then ''-0.00'' else ''0.00'')"
proof -
  define r where "r = round_ties_even (x / 1048576 * 2 ^ 1074)"
  define y :: rat where "y = of_int r / 2 ^ 1074"
  have "\<bar>x / 1048576\<bar> = \<bar>x\<bar> / 1048576" by simp
  with assms(2) have "\<bar>x / 1048576\<bar> < 1 / 2 ^ 1022" by (simp only:)
  from subnormal_quotient_small [OF this] have small: "\<bar>y\<bar> < 1 / 200"
    by (simp only: y_def r_def)
  have "(0::rat) < 2 ^ 1074" by (rule zero_less_power) simp
  then have neg: "(y < 0) = (r < 0)"
    unfolding y_def by (simp only: divide_less_0_iff) auto
  from small have nb: "\<not> 10 ^ 21 \<le> \<bar>y\<bar>" by simp
  have two: "two_decimals \<bar>y\<bar> = ''0.00''"
    using small by (intro two_decimals_small) simp_all
  have "formatToMB (Some (Fin x)) = toFixed (Fin y) 2"
    using assms(1) by (simp only: formatToMB_def falsy_num.simps if_False option.case
        div_MiB_subnormal [OF assms(2)] y_def r_def)
  also have "\<dots> = (if r < 0 then ''-'' else []) @ two_decimals \<bar>y\<bar>"
    using nb unfolding toFixed_def number.case neg
    by (simp only: if_False fixed_notation_two)
  finally show ?thesis
    by (simp add: two r_def)
qed

lemma formatToMB_exponent:
  assumes "10 ^ 21 \<le> \<bar>x\<bar> / 1048576"
  shows "formatToMB (Some (Fin x))
         = (if x < 0 then ''-'' else []) @ big_toString (\<bar>x\<bar> / 1048576)"
proof -
  have "(1::rat) / 2 ^ 1022 \<le> 1" by simp
  also have "(1::rat) \<le> 10 ^ 21" by simp
  finally have "(1::rat) / 2 ^ 1022 \<le> 10 ^ 21" .
  from this assms have n: "1 / 2 ^ 1022 \<le> \<bar>x\<bar> / 1048576" by (rule order_trans)
  have "(0::rat) < 10 ^ 21" by simp
  from this assms have "0 < \<bar>x\<bar> / 1048576" by (rule less_le_trans)
  then have nz: "x \<noteq> 0" by auto
  have a: "\<bar>x / 1048576\<bar> = \<bar>x\<bar> / 1048576" by simp
  have s: "(x / 1048576 < 0) = (x < 0)" by (simp add: divide_less_0_iff)
  have "formatToMB (Some (Fin x)) = toFixed (Fin (x / 1048576)) 2"
    using nz by (simp only: formatToMB_def falsy_num.simps if_False option.case
        div_MiB_exact [OF n])
  also have "\<dots> = (if x < 0 then ''-'' else []) @ big_toString (\<bar>x\<bar> / 1048576)"
    using assms unfolding toFixed_def number.case a s
    by (simp only: if_True)
  finally show ?thesis .
qed

lemma formatToMB_infinite:
  "formatToMB (Some PosInf) = ''Infinity''" "formatToMB (Some NegInf) = ''-Infinity''"
  by (simp_all add: formatToMB_def div_MiB_def toFixed_def)

lemma round_ties_even_minus_3_2: "round_ties_even (- (3 / 2)) = - 2"
proof -
  have "\<lfloor>- (3 / 2) :: rat\<rfloor> = - 2" by linarith
  then show ?thesis by (simp add: round_ties_even_def Let_def)
qed

lemma tiny_example:
  "\<bar>- (3 / 2 ^ 1055) :: rat\<bar> / 1048576 < 1 / 2 ^ 1022"
  "(- (3 / 2 ^ 1055) :: rat) / 1048576 * 2 ^ 1074 = - (3 / 2)"
  by simp_all

text \<open>
  C1, as the code has it: every falsy byte count (absent, \<open>NaN\<close>, zero) is shown as
  \<open>0.00\<close>. Any other finite count whose quotient by 1,048,576 is a normal binary64
  number below \<open>10 ^ 21\<close> in magnitude is shown as that quotient rounded to two decimal
  places, at most \<open>0.005\<close> away from it, with a minus sign in front when the count is
  negative: \<open>formatToMB(0)\<close> is \<open>0.00\<close>, \<open>formatToMB(1048576)\<close> is \<open>1.00\<close>, and
  \<open>formatToMB(-1048576)\<close> is \<open>-1.00\<close>. Outside that range: \<open>Infinity\<close> and
  \<open>-Infinity\<close> are shown by name, a quotient of \<open>10 ^ 21\<close> or more in exponent
  notation with the sign of the count, and a quotient below the normal range as
  \<open>0.00\<close>, or as \<open>-0.00\<close> when it rounds to a negative binary64 number.
\<close>

theorem formatToMB_behaviour:
  "(falsy_num b \<longrightarrow> formatToMB b = ''0.00'')
   \<and> (1 / 2 ^ 1022 \<le> \<bar>x\<bar> / 1048576 \<and> \<bar>x\<bar> / 1048576 < 10 ^ 21 \<longrightarrow>
        formatToMB (Some (Fin x))
          = (if x < 0 then ''-'' else []) @ two_decimals (\<bar>x\<bar> / 1048576)
        \<and> \<bar>of_nat (half_up (\<bar>x\<bar> / 1048576 * 100)) / 100 - \<bar>x\<bar> / 1048576\<bar> \<le> 1 / 200)
   \<and> formatToMB (Some (Fin 0)) = ''0.00''
   \<and> formatToMB (Some (Fin 1048576)) = ''1.00''
   \<and> formatToMB None = ''0.00''
   \<and> formatToMB (Some NaN) = ''0.00''
   \<and> formatToMB (Some (Fin (- 1048576))) = ''-1.00''
   \<and> formatToMB (Some PosInf) = ''Infinity''
   \<and> formatToMB (Some NegInf) = ''-Infinity''
   \<and> (10 ^ 21 \<le> \<bar>x\<bar> / 1048576 \<longrightarrow>
        formatToMB (Some (Fin x))
          = (if x < 0 then ''-'' else []) @ big_toString (\<bar>x\<bar> / 1048576))
   \<and> (x \<noteq> 0 \<and> \<bar>x\<bar> / 1048576 < 1 / 2 ^ 1022 \<longrightarrow>
        formatToMB (Some (Fin x))
          = (if round_ties_even (x / 1048576 * 2 ^ 1074) < 0 then ''-0.00'' else ''0.00''))"
proof (intro conjI impI)
  assume "1 / 2 ^ 1022 \<le> \<bar>x\<bar> / 1048576 \<and> \<bar>x\<bar> / 1048576 < 10 ^ 21"
  then show "formatToMB (Some (Fin x))
          = (if x < 0 then ''-'' else []) @ two_decimals (\<bar>x\<bar> / 1048576)"
    by (simp only: formatToMB_fixed)
  have "0 \<le> \<bar>x\<bar> / 1048576 * 100" by simp
  from half_up_close [OF this]
  show "\<bar>of_nat (half_up (\<bar>x\<bar> / 1048576 * 100)) / 100 - \<bar>x\<bar> / 1048576\<bar> \<le> 1 / 200"
    by linarith
next
  assume "10 ^ 21 \<le> \<bar>x\<bar> / 1048576"
  then show "formatToMB (Some (Fin x))
          = (if x < 0 then ''-'' else []) @ big_toString (\<bar>x\<bar> / 1048576)"
    by (rule formatToMB_exponent)
next
  assume "x \<noteq> 0 \<and> \<bar>x\<bar> / 1048576 < 1 / 2 ^ 1022"
  then have "x \<noteq> 0" and "\<bar>x\<bar> / 1048576 < 1 / 2 ^ 1022" by blast+
  then show "formatToMB (Some (Fin x))
          = (if round_ties_even (x / 1048576 * 2 ^ 1074) < 0 then ''-0.00'' else ''0.00'')"
    by (rule formatToMB_subnormal)
qed (simp_all add: formatToMB_falsy formatToMB_one_MiB formatToMB_minus_one_MiB
      formatToMB_infinite)

theorem formatToMB_behaviour_witness:
  "falsy_num (Some NaN) \<and> formatToMB (Some NaN) = ''0.00''
   \<and> 1 / 2 ^ 1022 \<le> \<bar>1572864 :: rat\<bar> / 1048576 \<and> \<bar>1572864 :: rat\<bar> / 1048576 < 10 ^ 21
   \<and> formatToMB (Some (Fin 1572864)) = ''1.50''
   \<and> 10 ^ 21 \<le> \<bar>1048576000000000000000000000 :: rat\<bar> / 1048576
   \<and> formatToMB (Some (Fin 1048576000000000000000000000)) = ''1e+21''
   \<and> (- (3 / 2 ^ 1055) :: rat) \<noteq> 0
   \<and> \<bar>- (3 / 2 ^ 1055) :: rat\<bar> / 1048576 < 1 / 2 ^ 1022
   \<and> formatToMB (Some (Fin (- (3 / 2 ^ 1055)))) = ''-0.00''"
proof -
  have a: "falsy_num (Some NaN)" by simp
  have "(1::rat) \<le> 3 / 2" by simp
  with tiny_le_one have "(1::rat) / 2 ^ 1022 \<le> 3 / 2" by (rule order_trans)
  then have b: "1 / 2 ^ 1022 \<le> \<bar>1572864 :: rat\<bar> / 1048576" by simp
  have c: "\<bar>1572864 :: rat\<bar> / 1048576 < 10 ^ 21" by simp
  have d: "two_decimals (\<bar>1572864\<bar> / 1048576) = ''1.50''"
    using two_decimals_3_2 by simp
  from formatToMB_behaviour [where b = "Some NaN" and x = 1572864] a b c d
  have r1: "formatToMB (Some NaN) = ''0.00''" and r2: "formatToMB (Some (Fin 1572864)) = ''1.50''"
    by simp_all
  have e: "10 ^ 21 \<le> \<bar>1048576000000000000000000000 :: rat\<bar> / 1048576" by simp
  have f: "big_toString (\<bar>1048576000000000000000000000\<bar> / 1048576) = ''1e+21''"
    using big_toString_1e21 by simp
  from formatToMB_behaviour [where x = 1048576000000000000000000000] e f
  have r3: "formatToMB (Some (Fin 1048576000000000000000000000)) = ''1e+21''"
    by simp
  have g: "(- (3 / 2 ^ 1055) :: rat) \<noteq> 0" by simp
  note h = tiny_example(1)
  from formatToMB_behaviour [where x = "- (3 / 2 ^ 1055)"] g h
  have "formatToMB (Some (Fin (- (3 / 2 ^ 1055))))
        = (if round_ties_even (- (3 / 2 ^ 1055) / 1048576 * 2 ^ 1074) < 0
           then ''-0.00'' else ''0.00'')"
    by blast
  then have r4: "formatToMB (Some (Fin (- (3 / 2 ^ 1055)))) = ''-0.00''"
    by (simp only: tiny_example(2) round_ties_even_minus_3_2) simp
  from a b c e g h r1 r2 r3 r4 show ?thesis by blast
qed

text \<open>A negative byte count is not shown as \<open>0.00\<close>.\<close>

theorem negative_bytes_counterexample:
  "formatToMB (Some (Fin (- 1048576))) = ''-1.00''
   \<and> formatToMB (Some (Fin (- 1048576))) \<noteq> ''0.00''"
  by (simp add: formatToMB_minus_one_MiB)

section \<open>The poll\<close>

lemma fetchNodes_failure:
  "request out = Inl f \<Longrightarrow>
     fetchNodes out now st =
       (st\<lparr>error := Some (errorMessage (caught f)), loading := False\<rparr>,
        [\<lparr>title = toast_title, description = errorMessage (caught f),
          variant = ''destructive''\<rparr>])"
  by (simp add: fetchNodes_def fetchNodes_settle_def fetchNodes_begin_def Let_def)

lemma fetchNodes_success:
  "request out = Inr d \<Longrightarrow>
     fetchNodes out now st =
       (st\<lparr>error := None, nodes := d, lastUpdate := Some now, loading := False\<rparr>, [])"
  by (simp add: fetchNodes_def fetchNodes_settle_def fetchNodes_begin_def)



lemma step_keeps_null:
  "error st = None \<Longrightarrow> \<not> failing ev \<Longrightarrow> error (fst (step ev st)) = None"
  by (cases ev)
     (auto simp: fetchNodes_begin_def handleRefresh_def fetchNodes_settle_def
           split: sum.splits)

lemma run_keeps_null:
  "error st = None \<Longrightarrow> \<forall>ev \<in> set es. \<not> failing ev \<Longrightarrow> error (run es st) = None"
  by (induction es arbitrary: st) (simp_all add: step_keeps_null)





text \<open>
  C5, as the code has it: the poll takes the first \<open>throw\<close> (the status error, whose
  message carries the status) exactly when the status of the response is not ok, and
  the second one (the backend error) exactly when the status is ok and the \<open>error\<close>
  property of the parsed body is truthy (\<open>true\<close> or a string that is not empty); the
  backend message is made of the \<open>details\<close> property when that is truthy and of the
  \<open>error\<close> property otherwise: the string itself, or \<open>true\<close>. Either way the message
  ends up in the state. A body with an ok status whose \<open>error\<close> is absent or falsy is
  the result of the request.
\<close>

theorem both_failure_channels_checked:
  "(request (Response status b) = Inl (HttpStatusError s)) = (\<not> response_ok status \<and> s = status)
   \<and> request (Rejected e) \<noteq> Inl (HttpStatusError s)
   \<and> (request (Response status (Json d)) = Inl (BackendError v))
       = (response_ok status \<and> truthy (property d ''error'')
          \<and> v = (if truthy (property d ''details'') then property d ''details''
                   else property d ''error''))
   \<and> (request (Response status (Json d)) = Inr d')
       = (response_ok status \<and> \<not> truthy (property d ''error'') \<and> d' = d)
   \<and> errorMessage (caught (HttpStatusError status)) = api_error_prefix @ nat_digits status
   \<and> errorMessage (caught (BackendError v)) = backend_error_prefix @ to_text v
   \<and> errorMessage (caught (BackendError (Str m))) = backend_error_prefix @ m
   \<and> errorMessage (caught (BackendError (Bool True))) = backend_error_prefix @ ''true''
   \<and> (truthy v \<longrightarrow> v = Bool True \<or> v = Str (to_text v) \<and> to_text v \<noteq> [])
   \<and> (\<not> response_ok status \<longrightarrow>
        error (fst (fetchNodes (Response status b) now st))
          = Some (api_error_prefix @ nat_digits status))
   \<and> (response_ok status \<and> truthy (property d ''error'') \<longrightarrow>
        error (fst (fetchNodes (Response status (Json d)) now st))
          = Some (backend_error_prefix @
                  to_text (if truthy (property d ''details'') then property d ''details''
                           else property d ''error'')))
   \<and> (response_ok status \<and> \<not> truthy (property d ''error'') \<longrightarrow>
        fetchNodes (Response status (Json d)) now st
          = (st\<lparr>error := None, nodes := d, lastUpdate := Some now, loading := False\<rparr>, []))
   \<and> request (Response 200 (Json (ObjectBody [(''error'', Str ''E''), (''details'', Str ''D'')])))
       = Inl (BackendError (Str ''D''))
   \<and> request (Response 200 (Json (ObjectBody [(''error'', Str ''E'')])))
       = Inl (BackendError (Str ''E''))
   \<and> request (Response 200 (Json (ObjectBody [(''error'', Bool True)])))
       = Inl (BackendError (Bool True))
   \<and> request (Response 404 (Json (ObjectBody [(''error'', Str ''E'')])))
       = Inl (HttpStatusError 404)"
proof (intro conjI)
  show "(request (Response status b) = Inl (HttpStatusError s)) = (\<not> response_ok status \<and> s = status)"
    by (auto split: body.splits)
  show "(request (Response status (Json d)) = Inl (BackendError v))
       = (response_ok status \<and> truthy (property d ''error'')
          \<and> v = (if truthy (property d ''details'') then property d ''details''
                   else property d ''error''))"
    by auto
  show "(request (Response status (Json d)) = Inr d')
       = (response_ok status \<and> \<not> truthy (property d ''error'') \<and> d' = d)"
    by auto
  show "truthy v \<longrightarrow> v = Bool True \<or> v = Str (to_text v) \<and> to_text v \<noteq> []"
    by (cases v) simp_all
  show "\<not> response_ok status \<longrightarrow>
        error (fst (fetchNodes (Response status b) now st))
          = Some (api_error_prefix @ nat_digits status)"
    by (simp add: fetchNodes_failure)
  show "response_ok status \<and> truthy (property d ''error'') \<longrightarrow>
        error (fst (fetchNodes (Response status (Json d)) now st))
          = Some (backend_error_prefix @
                  to_text (if truthy (property d ''details'') then property d ''details''
                           else property d ''error''))"
    by (simp add: fetchNodes_failure)
  show "response_ok status \<and> \<not> truthy (property d ''error'') \<longrightarrow>
        fetchNodes (Response status (Json d)) now st
          = (st\<lparr>error := None, nodes := d, lastUpdate := Some now, loading := False\<rparr>, [])"
    by (simp add: fetchNodes_success)
qed (simp_all add: response_ok_def)

theorem both_failure_channels_checked_witness:
  "\<not> response_ok 503
   \<and> error (fst (fetchNodes (Response 503 (InvalidJson NonError)) 0 initial_state))
       = Some (api_error_prefix @ ''503'')
   \<and> response_ok 200
   \<and> truthy (property (ObjectBody [(''details'', Str ''disk full''), (''error'', Bool True)]) ''error'')
   \<and> error (fst (fetchNodes
        (Response 200 (Json (ObjectBody [(''details'', Str ''disk full''), (''error'', Bool True)])))
        0 initial_state))
       = Some (backend_error_prefix @ ''disk full'')
   \<and> truthy (Str ''disk full'')
   \<and> Str ''disk full'' = Str (to_text (Str ''disk full''))
   \<and> \<not> truthy (property (ObjectBody [(''error'', Bool False)]) ''error'')
   \<and> nodes (fst (fetchNodes (Response 200 (Json (ObjectBody [(''error'', Bool False)])))
        0 initial_state)) = ObjectBody [(''error'', Bool False)]"
proof -
  have a: "\<not> response_ok 503" and b: "response_ok 200"
    by (simp_all add: response_ok_def)
  have c: "truthy (property (ObjectBody [(''details'', Str ''disk full''), (''error'', Bool True)]) ''error'')"
    by simp
  have d: "nat_digits 503 = ''503''"
    by (simp add: nat_digits_small nat_digits_large digit_char_def)
  from both_failure_channels_checked
        [where status = 503 and b = "InvalidJson NonError" and now = 0 and st = initial_state] a d
  have e: "error (fst (fetchNodes (Response 503 (InvalidJson NonError)) 0 initial_state))
       = Some (api_error_prefix @ ''503'')"
    by simp
  from both_failure_channels_checked
        [where status = 200
           and d = "ObjectBody [(''details'', Str ''disk full''), (''error'', Bool True)]"
           and now = 0 and st = initial_state] b c
  have f: "error (fst (fetchNodes
        (Response 200 (Json (ObjectBody [(''details'', Str ''disk full''), (''error'', Bool True)])))
        0 initial_state))
       = Some (backend_error_prefix @ ''disk full'')"
    by simp
  have g: "truthy (Str ''disk full'')" by simp
  from both_failure_channels_checked [where v = "Str ''disk full''"] g
  have h: "Str ''disk full'' = Str (to_text (Str ''disk full''))" by blast
  have i: "\<not> truthy (property (ObjectBody [(''error'', Bool False)]) ''error'')"
    by simp
  from both_failure_channels_checked
        [where status = 200 and d = "ObjectBody [(''error'', Bool False)]"
           and now = 0 and st = initial_state] b i
  have j: "nodes (fst (fetchNodes (Response 200 (Json (ObjectBody [(''error'', Bool False)])))
        0 initial_state)) = ObjectBody [(''error'', Bool False)]"
    by simp
  from a b c e f g h i j show ?thesis by blast
qed

text \<open>
  Bodies with an ok status that carry an \<open>error\<close> field and are not failures: the
  field is the empty string, \<open>null\<close>, or \<open>false\<close> (even beside a \<open>details\<close> text).
  The body is stored as the nodes, with no error and no toast.
\<close>

theorem falsy_error_field_counterexample:
  "response_ok 200
   \<and> property (ObjectBody [(''error'', Str [])]) ''error'' = Str []
   \<and> request (Response 200 (Json (ObjectBody [(''error'', Str [])])))
       = Inr (ObjectBody [(''error'', Str [])])
   \<and> fetchNodes (Response 200 (Json (ObjectBody [(''error'', Str [])]))) 3 initial_state
       = (\<lparr>nodes = ObjectBody [(''error'', Str [])], loading = False, error = None,
            lastUpdate = Some 3\<rparr>, [])
   \<and> property (ObjectBody [(''error'', Null)]) ''error'' = Null
   \<and> request (Response 200 (Json (ObjectBody [(''error'', Null)])))
       = Inr (ObjectBody [(''error'', Null)])
   \<and> property (ObjectBody [(''error'', Bool False), (''details'', Str ''disk full'')]) ''error''
       = Bool False
   \<and> request (Response 200
        (Json (ObjectBody [(''error'', Bool False), (''details'', Str ''disk full'')])))
       = Inr (ObjectBody [(''error'', Bool False), (''details'', Str ''disk full'')])"
  by (simp add: response_ok_def fetchNodes_success initial_state_def)

text \<open>
  C9, as the code has it: every call of \<open>fetchNodes\<close>, from the mount effect, the
  timer or the refresh button, sets the error to \<open>null\<close> before the request is sent
  and whatever the outcome will be, and changes nothing else; the poll then ends from
  that state. After the start the error stays \<open>null\<close> through every event that is
  not the end of a failing poll: no message is in the state until a poll fails.
\<close>

theorem fetchNodes_clears_error_first:
  "error (fetchNodes_begin st) = None
   \<and> error (fst (step Mounted st)) = None
   \<and> error (fst (step IntervalTick st)) = None
   \<and> error (fst (step RefreshClicked st)) = None
   \<and> fetchNodes out now st = fetchNodes_settle out now (fetchNodes_begin st)
   \<and> nodes (fetchNodes_begin st) = nodes st
   \<and> loading (fetchNodes_begin st) = loading st
   \<and> lastUpdate (fetchNodes_begin st) = lastUpdate st
   \<and> ((\<forall>ev \<in> set es. \<not> failing ev) \<longrightarrow> error (run es (fetchNodes_begin st)) = None)
   \<and> ((\<forall>ev \<in> set es. \<not> failing ev) \<longrightarrow> error (run es (handleRefresh st)) = None)"
  by (simp add: fetchNodes_begin_def fetchNodes_def handleRefresh_def run_keeps_null)

theorem fetchNodes_clears_error_first_witness:
  "\<not> failing IntervalTick
   \<and> \<not> failing (Settled (Response 200 (Json (NodeArray []))) 5)
   \<and> error (fst (fetchNodes (Rejected (ErrorObject ''old'')) 1 initial_state)) = Some ''old''
   \<and> error (run [IntervalTick, Settled (Response 200 (Json (NodeArray []))) 5]
        (fetchNodes_begin (fst (fetchNodes (Rejected (ErrorObject ''old'')) 1 initial_state))))
       = None"
proof -
  have a: "\<not> failing IntervalTick"
    and b: "\<not> failing (Settled (Response 200 (Json (NodeArray []))) 5)"
    by (simp_all add: response_ok_def)
  have c: "error (fst (fetchNodes (Rejected (ErrorObject ''old'')) 1 initial_state)) = Some ''old''"
    by (simp add: fetchNodes_failure)
  from fetchNodes_clears_error_first
    [where es = "[IntervalTick, Settled (Response 200 (Json (NodeArray []))) 5]"
       and st = "fst (fetchNodes (Rejected (ErrorObject ''old'')) 1 initial_state)"] a b
  have "error (run [IntervalTick, Settled (Response 200 (Json (NodeArray []))) 5]
        (fetchNodes_begin (fst (fetchNodes (Rejected (ErrorObject ''old'')) 1 initial_state))))
       = None"
    by simp
  with a b c show ?thesis by blast
qed

text \<open>
  A message in the state between the start of a poll and its end. The first poll has
  ended and the loading flag is clear; the timer starts a poll, a click on refresh
  starts a second one, and the first fails while the second is in flight.
\<close>

theorem overlapping_poll_error_counterexample:
  "loading (run [Mounted, Settled (Response 200 (Json (NodeArray []))) 0] initial_state) = False
   \<and> error (run [Mounted, Settled (Response 200 (Json (NodeArray []))) 0,
                 IntervalTick, RefreshClicked] initial_state) = None
   \<and> error (run [Mounted, Settled (Response 200 (Json (NodeArray []))) 0,
                 IntervalTick, RefreshClicked,
                 Settled (Rejected (ErrorObject ''A failed'')) 1] initial_state)
       = Some ''A failed''"
  by (simp add: response_ok_def initial_state_def fetchNodes_begin_def handleRefresh_def
      fetchNodes_settle_def Let_def)

text \<open>
  C10: after each event the loading flag is \<open>true\<close> when the event is a click on
  refresh, \<open>false\<close> when it is the end of a poll, and unchanged when \<open>fetchNodes\<close> is
  started by the mount effect or the timer: \<open>fetchNodes\<close> never sets the flag, it only
  clears it at the end, and \<open>handleRefresh\<close> alone sets it.
\<close>

theorem loading_set_only_by_handleRefresh:
  "loading (fst (step ev st)) =
     (case ev of
        RefreshClicked \<Rightarrow> True
      | Settled out now \<Rightarrow> False
      | Mounted \<Rightarrow> loading st
      | IntervalTick \<Rightarrow> loading st)
   \<and> loading (fetchNodes_begin st) = loading st
   \<and> loading (fst (fetchNodes_settle out' now' st)) = False
   \<and> loading (fst (fetchNodes out' now' st)) = False
   \<and> loading (handleRefresh st) = True"
  by (cases ev)
     (auto simp: fetchNodes_begin_def fetchNodes_def handleRefresh_def fetchNodes_settle_def
           Let_def split: sum.splits)

section \<open>The page\<close>

text \<open>
  C6, as the code has it: for a state whose nodes are an array, exactly one of the four
  branches is shown, chosen in this order: the error panel, with the button that calls
  \<open>handleRefresh\<close>, when the error is a message that is not empty; else the loading
  panel when the loading flag is set; else the empty-state panel when there is no
  node; else the table.
\<close>

theorem render_branch_priority:
  "nodes st = NodeArray xs \<Longrightarrow>
     branch_of (render st) =
       Some (if error st \<noteq> None \<and> error st \<noteq> Some [] then ErrorBranch
             else if loading st then LoadingBranch
             else if xs = [] then EmptyBranch
             else TableBranch)
     \<and> (render st = ErrorPanel m h) = (error st = Some m \<and> m \<noteq> [] \<and> h = HandleRefresh)
     \<and> (render st = LoadingPanel)
         = ((error st = None \<or> error st = Some []) \<and> loading st)
     \<and> (render st = EmptyPanel)
         = ((error st = None \<or> error st = Some []) \<and> \<not> loading st \<and> xs = [])
     \<and> (render st = NodeTable rs)
         = ((error st = None \<or> error st = Some []) \<and> \<not> loading st \<and> xs \<noteq> []
            \<and> rs = map2 render_row xs [0 ..< length xs])"
  by (cases "error st") (auto simp: render_def)

theorem render_branch_priority_witness:
  "nodes (fst (fetchNodes (Rejected (ErrorObject ''Failed to fetch'')) 0 initial_state))
     = NodeArray []
   \<and> branch_of (render (fst (fetchNodes (Rejected (ErrorObject ''Failed to fetch'')) 0
        initial_state))) = Some ErrorBranch
   \<and> render (fst (fetchNodes (Rejected (ErrorObject ''Failed to fetch'')) 0 initial_state))
     = ErrorPanel ''Failed to fetch'' HandleRefresh"
proof -
  let ?st = "fst (fetchNodes (Rejected (ErrorObject ''Failed to fetch'')) 0 initial_state)"
  have n: "nodes ?st = NodeArray []" and e: "error ?st = Some ''Failed to fetch''"
    by (simp_all add: fetchNodes_failure initial_state_def)
  from render_branch_priority [OF n, of "''Failed to fetch''" HandleRefresh] e n
  show ?thesis by simp
qed

text \<open>
  An error that is not \<open>null\<close> and yet no error panel: a poll whose \<open>Error\<close> has an
  empty message leaves the empty string as the error, and the page of the initial
  state then shows the empty-state panel.
\<close>

theorem empty_error_message_counterexample:
  "error (fst (fetchNodes (Rejected (ErrorObject [])) 0 initial_state)) \<noteq> None
   \<and> render (fst (fetchNodes (Rejected (ErrorObject [])) 0 initial_state)) = EmptyPanel"
  by (simp add: fetchNodes_failure initial_state_def render_def)

end
